theory Spec2Isabelle
  imports Main
begin

section \<open>Operation resolver (internal/v1/auth.go)\<close>

subsection \<open>Operations\<close>

text \<open>
  \<open>bakery.Op\<close> is a struct of two strings. Its zero value \<open>bakery.Op{}\<close> has both
  fields empty.
\<close>

record Op =
  Entity :: string
  Action :: string

definition zeroOp :: Op where
  "zeroOp = \<lparr>Entity = '''', Action = ''''\<rparr>"

text \<open>
  \<open>identchecker.LoginOp\<close> of the macaroon-bakery library: the operation that only
  asserts that the caller is logged in.
\<close>

definition LoginOp :: Op where
  "LoginOp = \<lparr>Entity = ''login'', Action = ''login''\<rparr>"

text \<open>
  Modelled from the spec: the action constants of package \<open>internal/auth\<close> are defined
  outside the two files verified here. The spec gives the closed set of action kinds by name
  (Read, WriteAdmin, WriteGroups, ReadGroups, CreateAgent, ReadSSHKeys, WriteSSHKeys,
  ReadAdmin, Verify, DischargeFor); each is a string constant, spelled here after its name.
\<close>

definition ActionRead :: string where "ActionRead = ''read''"
definition ActionVerify :: string where "ActionVerify = ''verify''"
definition ActionDischargeFor :: string where "ActionDischargeFor = ''dischargeFor''"
definition ActionCreateAgent :: string where "ActionCreateAgent = ''createAgent''"
definition ActionReadAdmin :: string where "ActionReadAdmin = ''readAdmin''"
definition ActionWriteAdmin :: string where "ActionWriteAdmin = ''writeAdmin''"
definition ActionReadGroups :: string where "ActionReadGroups = ''readGroups''"
definition ActionWriteGroups :: string where "ActionWriteGroups = ''writeGroups''"
definition ActionReadSSHKeys :: string where "ActionReadSSHKeys = ''readSSHKeys''"
definition ActionWriteSSHKeys :: string where "ActionWriteSSHKeys = ''writeSSHKeys''"

text \<open>
  Modelled from the spec: \<open>auth.UserOp\<close> and \<open>auth.GlobalOp\<close> of package
  \<open>internal/auth\<close> are defined outside the two files verified here. The spec describes an operation
  as \<open>{Entity, Action}\<close> whose entity is "global" or a specific user identifier, and
  gives \<open>Operation{Entity: "alice", Action: CreateAgent}\<close> for the owner "alice".
\<close>

definition UserOp :: "string \<Rightarrow> string \<Rightarrow> Op" where
  "UserOp u action = \<lparr>Entity = u, Action = action\<rparr>"

text \<open>
  Modelled from the spec: \<open>auth.GlobalOp\<close>, defined in package \<open>internal/auth\<close> as well.
  The spec names "global" as the entity of the operations that are not scoped to a user.
\<close>

definition GlobalOp :: "string \<Rightarrow> Op" where
  "GlobalOp action = \<lparr>Entity = ''global'', Action = action\<rparr>"

text \<open>
  The actions that \<open>opForRequest\<close> passes to \<open>UserOp\<close> and \<open>GlobalOp\<close>.
\<close>

definition resourceActions :: "string list" where
  "resourceActions =
     [ActionRead, ActionVerify, ActionDischargeFor, ActionCreateAgent, ActionReadAdmin,
      ActionWriteAdmin, ActionReadGroups, ActionWriteGroups, ActionReadSSHKeys,
      ActionWriteSSHKeys]"

subsection \<open>Request descriptors\<close>

text \<open>
  The argument of \<open>opForRequest\<close> is an \<open>interface{}\<close>. The type switch tells eighteen
  pointer types of package \<open>params\<close> apart; every other dynamic type, and the nil
  interface, falls to \<open>default\<close>. A pointer is \<open>None\<close> when it is nil, and a nil pointer
  of one of the eighteen types still selects that type's case.

  Of each struct only the fields that \<open>opForRequest\<close> reads are kept: \<open>Username\<close> and,
  for \<open>params.SetUserRequest\<close>, \<open>Owner\<close> (promoted from the embedded \<open>params.User\<close>).
\<close>

record UsernameFields =
  Username :: string

record SetUserFields = UsernameFields +
  Owner :: string

datatype 'v request =
    QueryUsersRequest "unit option"
  | UserRequest "UsernameFields option"
  | SetUserRequest "SetUserFields option"
  | UserGroupsRequest "UsernameFields option"
  | SetUserGroupsRequest "UsernameFields option"
  | ModifyUserGroupsRequest "UsernameFields option"
  | UserIDPGroupsRequest "UsernameFields option"
  | WhoAmIRequest "unit option"
  | SSHKeysRequest "UsernameFields option"
  | PutSSHKeysRequest "UsernameFields option"
  | DeleteSSHKeysRequest "UsernameFields option"
  | UserTokenRequest "UsernameFields option"
  | VerifyTokenRequest "unit option"
  | UserExtraInfoRequest "UsernameFields option"
  | SetUserExtraInfoRequest "UsernameFields option"
  | UserExtraInfoItemRequest "UsernameFields option"
  | SetUserExtraInfoItemRequest "UsernameFields option"
  | DischargeTokenForUserRequest "unit option"
  | OtherValue 'v

text \<open>
  Reading a field through a nil pointer panics; the panic is a result of its own.
\<close>

datatype panic = NilPointerDereference

text \<open>
  A line written by \<open>logger.Infof\<close>: the format and its argument.
\<close>

datatype 'v log_entry = Infof string 'v

definition userOpOf :: "'r UsernameFields_scheme option \<Rightarrow> string \<Rightarrow> panic + Op \<times> 'v log_entry list" where
  \<comment> \<open>\<open>return auth.UserOp(r.Username, action)\<close> for a pointer \<open>r\<close>\<close>
  "userOpOf r action =
     (case r of
        None \<Rightarrow> Inl NilPointerDereference
      | Some s \<Rightarrow> Inr (UserOp (Username s) action, []))"

fun opForRequest :: "'v request \<Rightarrow> panic + Op \<times> 'v log_entry list" where
  "opForRequest (QueryUsersRequest r) = Inr (GlobalOp ActionRead, [])"
| "opForRequest (UserRequest r) = userOpOf r ActionRead"
| "opForRequest (SetUserRequest r) =
     (case r of
        None \<Rightarrow> Inl NilPointerDereference
      | Some s \<Rightarrow>
          if Owner s \<noteq> '''' then Inr (UserOp (Owner s) ActionCreateAgent, [])
          else Inr (UserOp (Username s) ActionWriteAdmin, []))"
| "opForRequest (UserGroupsRequest r) = userOpOf r ActionReadGroups"
| "opForRequest (SetUserGroupsRequest r) = userOpOf r ActionWriteGroups"
| "opForRequest (ModifyUserGroupsRequest r) = userOpOf r ActionWriteGroups"
| "opForRequest (UserIDPGroupsRequest r) = userOpOf r ActionReadGroups"
| "opForRequest (WhoAmIRequest r) = Inr (LoginOp, [])"
| "opForRequest (SSHKeysRequest r) = userOpOf r ActionReadSSHKeys"
| "opForRequest (PutSSHKeysRequest r) = userOpOf r ActionWriteSSHKeys"
| "opForRequest (DeleteSSHKeysRequest r) = userOpOf r ActionWriteSSHKeys"
| "opForRequest (UserTokenRequest r) = userOpOf r ActionReadAdmin"
| "opForRequest (VerifyTokenRequest r) = Inr (GlobalOp ActionVerify, [])"
| "opForRequest (UserExtraInfoRequest r) = userOpOf r ActionReadAdmin"
| "opForRequest (SetUserExtraInfoRequest r) = userOpOf r ActionWriteAdmin"
| "opForRequest (UserExtraInfoItemRequest r) = userOpOf r ActionReadAdmin"
| "opForRequest (SetUserExtraInfoItemRequest r) = userOpOf r ActionWriteAdmin"
| "opForRequest (DischargeTokenForUserRequest r) = Inr (GlobalOp ActionDischargeFor, [])"
| "opForRequest (OtherValue v) = Inr (zeroOp, [Infof ''unknown API argument type %#v'' v])"

text \<open>
  The inputs on which \<open>opForRequest\<close> reads a field through a nil pointer: a nil pointer
  of a request type whose case reads \<open>r.Username\<close> or \<open>r.Owner\<close>.
\<close>

fun readsNil :: "'v request \<Rightarrow> bool" where
  "readsNil (UserRequest r) = (r = None)"
| "readsNil (SetUserRequest r) = (r = None)"
| "readsNil (UserGroupsRequest r) = (r = None)"
| "readsNil (SetUserGroupsRequest r) = (r = None)"
| "readsNil (ModifyUserGroupsRequest r) = (r = None)"
| "readsNil (UserIDPGroupsRequest r) = (r = None)"
| "readsNil (SSHKeysRequest r) = (r = None)"
| "readsNil (PutSSHKeysRequest r) = (r = None)"
| "readsNil (DeleteSSHKeysRequest r) = (r = None)"
| "readsNil (UserTokenRequest r) = (r = None)"
| "readsNil (UserExtraInfoRequest r) = (r = None)"
| "readsNil (SetUserExtraInfoRequest r) = (r = None)"
| "readsNil (UserExtraInfoItemRequest r) = (r = None)"
| "readsNil (SetUserExtraInfoItemRequest r) = (r = None)"
| "readsNil _ = False"

section \<open>The Ubuntu SSO OAuth identity provider (idp/usso/ussooauth/ussooauth.go)\<close>

subsection \<open>Errors\<close>

text \<open>
  Go errors as values. \<open>LibError\<close> is an error handed back by a library or a collaborator
  (its message); the other constructors are the calls of package \<open>errgo\<close> that the source
  makes, with the format and its arguments kept apart.
\<close>

datatype error =
    LibError string
  | Newf string "string list"
  | Notef error string "string list"
  | Mask error

subsection \<open>The provider's descriptor and its registration\<close>

text \<open>
  \<open>identityProvider\<close> is an empty struct and every method has a pointer receiver that it
  never reads; \<open>IdentityProvider\<close> is the nil pointer of that type.
\<close>

type_synonym identityProvider = unit

definition IdentityProvider :: "identityProvider option" where
  "IdentityProvider = None"

definition ussoURL :: string where
  "ussoURL = ''https://login.ubuntu.com''"

definition Name :: "identityProvider option \<Rightarrow> string" where
  "Name p = ''usso_oauth''"

definition Description :: "identityProvider option \<Rightarrow> string" where
  "Description p = ''Ubuntu SSO OAuth''"

definition Interactive :: "identityProvider option \<Rightarrow> bool" where
  "Interactive p = False"

text \<open>
  Modelled from the spec: \<open>config.RegisterIDP\<close> of package \<open>config\<close> is defined outside the
  two files verified here. The spec says that each provider registers under a unique string key at
  process start and that lookups by that key select the provider: the registry is a map
  from keys to provider factories, and registering stores the factory under the key.
\<close>

type_synonym 'a factory = "'a \<Rightarrow> identityProvider option \<times> error option"

definition RegisterIDP :: "string \<Rightarrow> 'a factory \<Rightarrow> (string \<rightharpoonup> 'a factory) \<Rightarrow> (string \<rightharpoonup> 'a factory)" where
  "RegisterIDP idpType f idps = idps(idpType \<mapsto> f)"

definition init :: "(string \<rightharpoonup> 'a factory) \<Rightarrow> (string \<rightharpoonup> 'a factory)" where
  "init idps = RegisterIDP ''usso_oauth'' (\<lambda>unmarshal. (IdentityProvider, None)) idps"

text \<open>
  \<open>idp.URLContext\<close> is used through its one method \<open>URL(path)\<close> only.
\<close>

type_synonym URLContext = "string \<Rightarrow> string"

definition URL :: "identityProvider option \<Rightarrow> URLContext \<Rightarrow> string \<Rightarrow> string \<times> error option" where
  "URL p c waitID =
     (let callback = c ''/oauth'';
          callback = (if waitID \<noteq> '''' then callback @ ''?waitid='' @ waitID else callback)
      in (callback, None))"

subsection \<open>The consumer key pattern\<close>

text \<open>
  \<open>consumerKeyRegexp\<close> is the pattern \<open>oauth_consumer_key=Q([^Q]*)Q\<close>, where \<open>Q\<close> stands
  for the double quote: a literal prefix, a greedy run of characters other than the double
  quote (the one capture group), and a closing double quote. Strings are byte strings; the
  prefix and the quote are ASCII, so matching bytewise is matching runewise.
\<close>

definition quote :: char where
  "quote = CHR 0x22"

definition consumerKeyPrefix :: string where
  "consumerKeyPrefix = ''oauth_consumer_key='' @ [quote]"

fun stripPrefix :: "string \<Rightarrow> string \<Rightarrow> string option" where
  "stripPrefix [] s = Some s"
| "stripPrefix (p # ps) [] = None"
| "stripPrefix (p # ps) (c # cs) = (if p = c then stripPrefix ps cs else None)"

text \<open>
  A match of the pattern that starts at the first byte of \<open>s\<close>: the matched text and the
  capture group. The greedy run takes every byte up to the next double quote, and there is
  a match only if that double quote exists.
\<close>

definition matchHere :: "string \<Rightarrow> (string \<times> string) option" where
  "matchHere s =
     (case stripPrefix consumerKeyPrefix s of
        None \<Rightarrow> None
      | Some rest \<Rightarrow>
          (let k = takeWhile (\<lambda>c. c \<noteq> quote) rest in
           case dropWhile (\<lambda>c. c \<noteq> quote) rest of
             [] \<Rightarrow> None
           | q # _ \<Rightarrow> Some (consumerKeyPrefix @ k @ [q], k)))"

text \<open>
  \<open>consumerKeyRegexp.FindStringSubmatch\<close>: the leftmost match as the list of the matched
  text and the capture group, or nil (the empty list) when nothing matches.
\<close>

fun FindStringSubmatch :: "string \<Rightarrow> string list" where
  "FindStringSubmatch [] = []"
| "FindStringSubmatch (c # cs) =
     (case matchHere (c # cs) of
        Some (w, k) \<Rightarrow> [w, k]
      | None \<Rightarrow> FindStringSubmatch cs)"

text \<open>
  All the matches of the pattern in a header, as the spec counts them: the capture groups
  of the successive non-overlapping matches from left to right (what
  \<open>FindAllStringSubmatch\<close> would list). The source never computes this; it is here to
  state how many matches a header holds. The first argument is the number of bytes still
  covered by the previous match.
\<close>

fun findAllFrom :: "nat \<Rightarrow> string \<Rightarrow> string list" where
  "findAllFrom n [] = []"
| "findAllFrom (Suc n) (c # cs) = findAllFrom n cs"
| "findAllFrom 0 (c # cs) =
     (case matchHere (c # cs) of
        Some (w, k) \<Rightarrow> k # findAllFrom (length w - 1) cs
      | None \<Rightarrow> findAllFrom 0 cs)"

definition consumerKeyMatches :: "string \<Rightarrow> string list" where
  "consumerKeyMatches s = findAllFrom 0 s"

text \<open>
  A header parameter \<open>oauth_consumer_key=QkQ\<close>, for writing headers down.
\<close>

definition consumerKeyParam :: "string \<Rightarrow> string" where
  "consumerKeyParam k = consumerKeyPrefix @ k @ [quote]"

subsection \<open>Requests, responses and the libraries\<close>

text \<open>
  \<open>http.Header\<close> and \<open>url.Values\<close> are maps from a key to its values; \<open>Header.Get\<close> is the
  first value of the key, or the empty string. The two keys the source asks for,
  \<open>Authorization\<close> and \<open>Content-Type\<close>, are in canonical form already.
\<close>

type_synonym Header = "string \<rightharpoonup> string list"
type_synonym Values = "string \<rightharpoonup> string list"

definition Header_Get :: "Header \<Rightarrow> string \<Rightarrow> string" where
  "Header_Get h key =
     (case h key of None \<Rightarrow> '''' | Some [] \<Rightarrow> '''' | Some (v # _) \<Rightarrow> v)"

text \<open>
  The inbound \<open>http.Request\<close>: the fields the source reads, and the request line and
  body that \<open>ParseForm\<close> draws the form from.
\<close>

record Request =
  Method :: string
  Header :: Header
  RequestURI :: string
  Body :: string
  Form :: Values

text \<open>
  The validator's \<open>http.Response\<close>: its header, and what \<open>ioutil.ReadAll\<close> gets from its
  body (the bytes read, and the read error if any).
\<close>

record Response =
  resp_Header :: Header
  resp_Body :: "string \<times> error option"

text \<open>
  \<open>url.URL\<close>. The source parses the request URL, clears \<open>RawQuery\<close> and prints the URL.
\<close>

record url_URL =
  Scheme :: string
  Opaque :: string
  Host :: string
  Path :: string
  RawPath :: string
  ForceQuery :: bool
  RawQuery :: string
  Fragment :: string

text \<open>
  The struct that the source marshals, and JSON values. \<open>json.Marshal\<close> writes the fields
  of a struct in their order of declaration, each under the key of its tag; a struct of
  four strings always encodes.
\<close>

datatype json = JString string | JObject "(string \<times> json) list"

record validateRequest =
  req_URL :: string
  req_Method :: string
  req_Authorization :: string
  req_QueryString :: string

definition json_Marshal :: "validateRequest \<Rightarrow> error + json" where
  "json_Marshal request =
     Inr (JObject
       [(''http_url'', JString (req_URL request)),
        (''http_method'', JString (req_Method request)),
        (''authorization'', JString (req_Authorization request)),
        (''query_string'', JString (req_QueryString request))])"

text \<open>
  The struct that the validator's answer is decoded into.
\<close>

record validated =
  IsValid :: bool
  Error :: string

text \<open>
  The library functions and the network, as the source calls them: \<open>url.Parse\<close>,
  \<open>URL.String\<close>, \<open>Request.ParseForm\<close> (the form it leaves in \<open>req.Form\<close>; the source
  drops its error), \<open>Values.Encode\<close>, \<open>http.Post\<close> (the remote validator),
  \<open>mime.ParseMediaType\<close> and \<open>json.Unmarshal\<close> into the struct above.
\<close>

record libs =
  url_Parse :: "string \<Rightarrow> error + url_URL"
  URL_String :: "url_URL \<Rightarrow> string"
  ParseForm :: "Request \<Rightarrow> Values"
  Values_Encode :: "Values \<Rightarrow> string"
  http_Post :: "string \<Rightarrow> string \<Rightarrow> json \<Rightarrow> error + Response"
  mime_ParseMediaType :: "string \<Rightarrow> error + string \<times> (string \<rightharpoonup> string)"
  json_Unmarshal :: "string \<Rightarrow> error + validated"

text \<open>
  What \<open>verifyOAuthSignature\<close> does to the outside, in order: the POST with its URL,
  content type and body, the read of the response body, and the deferred close.
\<close>

datatype io_event = Post string string json | ReadAll | BodyClose

subsection \<open>verifyOAuthSignature\<close>

text \<open>
  The part of \<open>verifyOAuthSignature\<close> that runs on the validator's response, between the
  POST and the deferred close of the body (from \<open>mime.ParseMediaType\<close> to the final
  \<open>return\<close>). The result is the function's result and the events of this part. The
  error of \<open>ioutil.ReadAll\<close> is overwritten unread, so only the bytes count.
\<close>

definition verifyResponse :: "libs \<Rightarrow> Request \<Rightarrow> Response \<Rightarrow> (error + string) \<times> io_event list" where
  "verifyResponse L req resp =
     (case mime_ParseMediaType L (Header_Get (resp_Header resp) ''Content-Type'') of
        Inl err \<Rightarrow>
          (Inl (Newf ''bad content type %q'' [Header_Get (resp_Header resp) ''Content-Type'']), [])
      | Inr (t, ps) \<Rightarrow>
          if t \<noteq> ''application/json'' then
            (Inl (Newf ''unexpected response type %q'' [t]), [])
          else
            (let data = fst (resp_Body resp) in
             case json_Unmarshal L data of
               Inl err \<Rightarrow> (Inl (Mask err), [ReadAll])
             | Inr v \<Rightarrow>
                 if Error v \<noteq> '''' then
                   (Inl (Newf ''cannot validate OAuth credentials: %s'' [Error v]), [ReadAll])
                 else if \<not> IsValid v then
                   (Inl (Newf ''invalid OAuth credentials'' []), [ReadAll])
                 else
                   (let consumerKey = FindStringSubmatch (Header_Get (Header req) ''Authorization'') in
                    if length consumerKey \<noteq> 2 then
                      (Inl (Newf ''no customer key in authorization'' []), [ReadAll])
                    else
                      (Inr (ussoURL @ ''/+id/'' @ consumerKey ! 1), [ReadAll]))))"

text \<open>
  The whole function: the result and the events in order. \<open>req.ParseForm()\<close> fills
  \<open>req.Form\<close> in place; the close of the response body is deferred once the POST has
  returned a response, so it ends every path from there on.
\<close>

definition verifyOAuthSignature :: "libs \<Rightarrow> string \<Rightarrow> Request \<Rightarrow> (error + string) \<times> io_event list" where
  "verifyOAuthSignature L requestURL req0 =
     (let req = req0\<lparr>Form := ParseForm L req0\<rparr> in
      case url_Parse L requestURL of
        Inl err \<Rightarrow> (Inl (Notef err ''cannot parse request URL'' []), [])
      | Inr u0 \<Rightarrow>
          (let u = u0\<lparr>RawQuery := ''''\<rparr>;
               request = \<lparr>req_URL = URL_String L u,
                          req_Method = Method req,
                          req_Authorization = Header_Get (Header req) ''Authorization'',
                          req_QueryString = Values_Encode L (Form req)\<rparr> in
           case json_Marshal request of
             Inl err \<Rightarrow> (Inl (Notef err ''cannot marshal request'' []), [])
           | Inr buf \<Rightarrow>
               (let post = Post (ussoURL @ ''/api/v2/requests/validate'') ''application/json'' buf in
                case http_Post L (ussoURL @ ''/api/v2/requests/validate'') ''application/json'' buf of
                  Inl err \<Rightarrow> (Inl (Mask err), [post])
                | Inr resp \<Rightarrow>
                    (let (result, evs) = verifyResponse L req resp in
                     (result, post # evs @ [BodyClose])))))"

text \<open>
  The payload that the source builds for a request URL and a request, as a JSON value.
\<close>

definition payload :: "libs \<Rightarrow> url_URL \<Rightarrow> Request \<Rightarrow> json" where
  "payload L u req =
     JObject
       [(''http_url'', JString (URL_String L (u\<lparr>RawQuery := ''''\<rparr>))),
        (''http_method'', JString (Method req)),
        (''authorization'', JString (Header_Get (Header req) ''Authorization'')),
        (''query_string'', JString (Values_Encode L (ParseForm L req)))]"

fun isPost :: "io_event \<Rightarrow> bool" where
  "isPost (Post url ctype body) = True"
| "isPost _ = False"

subsection \<open>Handle\<close>

text \<open>
  \<open>idp.Context\<close>, as \<open>Handle\<close> uses it: the request URL, the request of \<open>c.Params()\<close>, and
  the user store behind \<open>FindUserByExternalId\<close>. The type \<open>'u\<close> is the user
  (\<open>*params.User\<close>). A run of \<open>Handle\<close> is the list of its events: those of the
  verification, and the calls that complete the login.
\<close>

record 'u Context =
  RequestURL :: string
  Params_Request :: Request
  FindUserByExternalId :: "string \<Rightarrow> error + 'u"

datatype 'u event = IO io_event | LoginFailure error | LoginSuccess 'u

text \<open>
  Modelled from the spec: \<open>idputil.LoginUser\<close> of package \<open>idp/idputil\<close> is defined outside
  the two files verified here. The spec says that on successful resolution the login-completion
  collaborator is invoked with the resolved user.
\<close>

definition LoginUser :: "'u \<Rightarrow> 'u event list" where
  "LoginUser u = [LoginSuccess u]"

definition Handle :: "identityProvider option \<Rightarrow> libs \<Rightarrow> 'u Context \<Rightarrow> 'u event list" where
  "Handle p L c =
     (let (r, evs) = verifyOAuthSignature L (RequestURL c) (Params_Request c) in
      case r of
        Inl err \<Rightarrow> map IO evs @ [LoginFailure err]
      | Inr ident \<Rightarrow>
          (case FindUserByExternalId c ident of
             Inl err \<Rightarrow>
               map IO evs @ [LoginFailure (Notef err ''cannot get user details for %q'' [ident])]
           | Inr u \<Rightarrow> map IO evs @ LoginUser u))"

text \<open>
  The terminal outcomes of a run: the calls of the login-completion sink.
\<close>

fun isTerminal :: "'u event \<Rightarrow> bool" where
  "isTerminal (IO e) = False"
| "isTerminal (LoginFailure err) = True"
| "isTerminal (LoginSuccess u) = True"

definition outcomes :: "'u event list \<Rightarrow> 'u event list" where
  "outcomes evs = filter isTerminal evs"

subsection \<open>A validator double for the examples\<close>

text \<open>
  Concrete libraries to run the functions on: a URL parser that rejects the URL \<open>:\<close>
  (which \<open>url.Parse\<close> rejects for its missing scheme) and otherwise splits at the first
  question mark, a media type parser that cuts the parameters off, a decoder that knows
  two response bodies, and a validator that answers every POST with the given response.
\<close>

definition quoted :: "string \<Rightarrow> string" where
  "quoted s = quote # s @ [quote]"

definition validBody :: string where
  "validBody = ''{'' @ quoted ''is_valid'' @ '':true,'' @ quoted ''error'' @ '':'' @ quoted '''' @ ''}''"

definition invalidBody :: string where
  "invalidBody = ''{'' @ quoted ''is_valid'' @ '':false,'' @ quoted ''error'' @ '':'' @ quoted '''' @ ''}''"

definition rejectedBody :: string where
  "rejectedBody = ''{'' @ quoted ''is_valid'' @ '':false,'' @ quoted ''error'' @ '':'' @ quoted ''bad nonce'' @ ''}''"

definition double :: "(error + Response) \<Rightarrow> libs" where
  "double answer =
     \<lparr>url_Parse = (\<lambda>s. if s = '':'' then Inl (LibError ''missing protocol scheme'')
                        else Inr \<lparr>Scheme = '''', Opaque = '''', Host = '''',
                                  Path = takeWhile (\<lambda>c. c \<noteq> CHR ''?'') s, RawPath = '''',
                                  ForceQuery = False,
                                  RawQuery = drop 1 (dropWhile (\<lambda>c. c \<noteq> CHR ''?'') s),
                                  Fragment = ''''\<rparr>),
      URL_String = (\<lambda>u. Path u @ (if RawQuery u = '''' then '''' else ''?'' @ RawQuery u)),
      ParseForm = (\<lambda>req. Form req),
      Values_Encode = (\<lambda>v. case v ''waitid'' of Some [w] \<Rightarrow> ''waitid='' @ w | _ \<Rightarrow> ''''),
      http_Post = (\<lambda>url ctype body. answer),
      mime_ParseMediaType = (\<lambda>s. if s = '''' then Inl (LibError ''mime: no media type'')
                                  else Inr (takeWhile (\<lambda>c. c \<noteq> CHR '';'') s, Map.empty)),
      json_Unmarshal = (\<lambda>d. if d = validBody then Inr \<lparr>IsValid = True, Error = ''''\<rparr>
                             else if d = invalidBody then Inr \<lparr>IsValid = False, Error = ''''\<rparr>
                             else if d = rejectedBody then Inr \<lparr>IsValid = False, Error = ''bad nonce''\<rparr>
                             else Inl (LibError ''invalid character''))\<rparr>"

definition jsonResponse :: "string \<Rightarrow> Response" where
  "jsonResponse body =
     \<lparr>resp_Header = [''Content-Type'' \<mapsto> [''application/json'']], resp_Body = (body, None)\<rparr>"

definition textResponse :: "string \<Rightarrow> Response" where
  "textResponse body =
     \<lparr>resp_Header = [''Content-Type'' \<mapsto> [''text/plain'']], resp_Body = (body, None)\<rparr>"

definition signedRequest :: "string \<Rightarrow> Request" where
  "signedRequest authorization =
     \<lparr>Method = ''GET'', Header = [''Authorization'' \<mapsto> [authorization]],
      RequestURI = ''/oauth?waitid=w1'', Body = '''', Form = [''waitid'' \<mapsto> [''w1'']]\<rparr>"

definition plainResponse :: Response where
  "plainResponse = \<lparr>resp_Header = Map.empty, resp_Body = (validBody, None)\<rparr>"

text \<open>
  What the double's URL parser makes of the request URL of the examples.
\<close>

definition parsedURL :: url_URL where
  "parsedURL =
     \<lparr>Scheme = '''', Opaque = '''', Host = '''', Path = ''https://id.example/oauth'',
      RawPath = '''', ForceQuery = False, RawQuery = ''waitid=w1'', Fragment = ''''\<rparr>"

text \<open>
  A user store that knows one external identity, and the login callback of the examples.
\<close>

definition userStore :: "string \<Rightarrow> error + string" where
  "userStore ident =
     (if ident = ''https://login.ubuntu.com/+id/u123'' then Inr ''bob''
      else Inl (LibError ''not found''))"

definition callback :: "string \<Rightarrow> string Context" where
  "callback authorization =
     \<lparr>RequestURL = ''https://id.example/oauth?waitid=w1'',
      Params_Request = signedRequest authorization,
      FindUserByExternalId = userStore\<rparr>"


section \<open>Properties of the operation resolver\<close>

text \<open>
  Claim C1. For every SetUserRequest \<open>r\<close>, \<open>opForRequest\<close> returns the operation with
  entity \<open>r.Owner\<close> and action CreateAgent when \<open>r.Owner\<close> is not empty, and the operation
  with entity \<open>r.Username\<close> and action WriteAdmin when \<open>r.Owner\<close> is the empty string.
  Nothing is logged.
\<close>

theorem opForRequest_SetUserRequest:
  "opForRequest (SetUserRequest (Some r)) =
     Inr (if Owner r \<noteq> '''' then \<lparr>Entity = Owner r, Action = ActionCreateAgent\<rparr>
          else \<lparr>Entity = Username r, Action = ActionWriteAdmin\<rparr>, [])"
  by (simp add: UserOp_def)

text \<open>
  The two examples of the spec: the owner "alice" with the user "bob", and no owner.
\<close>

theorem opForRequest_SetUserRequest_witness:
  "opForRequest (SetUserRequest (Some \<lparr>Username = ''bob'', Owner = ''alice''\<rparr>) :: unit request) =
     Inr (\<lparr>Entity = ''alice'', Action = ActionCreateAgent\<rparr>, [])
   \<and> opForRequest (SetUserRequest (Some \<lparr>Username = ''bob'', Owner = ''''\<rparr>) :: unit request) =
     Inr (\<lparr>Entity = ''bob'', Action = ActionWriteAdmin\<rparr>, [])"
  using opForRequest_SetUserRequest [of "\<lparr>Username = ''bob'', Owner = ''alice''\<rparr>"]
        opForRequest_SetUserRequest [of "\<lparr>Username = ''bob'', Owner = ''''\<rparr>"]
  by simp

text \<open>
  Claim C2, as stated, says that \<open>opForRequest\<close> returns an operation for every input
  value. It does not for a nil \<open>*params.UserRequest\<close>: the type switch selects the case of
  that type, and reading \<open>r.Username\<close> panics.
\<close>

theorem opForRequest_nil_UserRequest_panics:
  "opForRequest (UserRequest None :: unit request) = Inl NilPointerDereference"
  by (simp add: userOpOf_def)

text \<open>
  Claim C2, amended. For every input value other than a nil pointer of a request type
  whose \<open>Username\<close> or \<open>Owner\<close> field the resolver reads, \<open>opForRequest\<close> returns an
  operation; on those nil pointers it panics. Every value that is not of one of the known
  request types is no such pointer, and for it the result is the zero operation (empty
  entity and action) together with one logged diagnostic.
\<close>

theorem opForRequest_total_unless_nil:
  "(\<not> readsNil r \<longrightarrow> (\<exists>op lg. opForRequest r = Inr (op, lg)))
   \<and> (readsNil r \<longrightarrow> opForRequest r = Inl NilPointerDereference)
   \<and> \<not> readsNil (OtherValue v)
   \<and> opForRequest (OtherValue v) =
       Inr (\<lparr>Entity = '''', Action = ''''\<rparr>, [Infof ''unknown API argument type %#v'' v])"
  by (cases r) (auto simp: userOpOf_def zeroOp_def split: option.splits)

theorem opForRequest_total_unless_nil_witness:
  "\<not> readsNil (UserRequest (Some \<lparr>Username = ''bob''\<rparr>) :: string request)
   \<and> (\<exists>op lg. opForRequest (UserRequest (Some \<lparr>Username = ''bob''\<rparr>) :: string request) = Inr (op, lg))
   \<and> readsNil (SetUserRequest None :: string request)
   \<and> opForRequest (SetUserRequest None :: string request) = Inl NilPointerDereference
   \<and> opForRequest (OtherValue ''42'') =
       Inr (\<lparr>Entity = '''', Action = ''''\<rparr>, [Infof ''unknown API argument type %#v'' ''42''])"
proof -
  have a: "\<not> readsNil (UserRequest (Some \<lparr>Username = ''bob''\<rparr>) :: string request)" by simp
  have b: "readsNil (SetUserRequest None :: string request)" by simp
  note t1 = opForRequest_total_unless_nil
    [of "UserRequest (Some \<lparr>Username = ''bob''\<rparr>) :: string request" "''42''"]
  note t2 = opForRequest_total_unless_nil [of "SetUserRequest None :: string request" "''42''"]
  from t1 a have c: "\<exists>op lg. opForRequest (UserRequest (Some \<lparr>Username = ''bob''\<rparr>) :: string request) = Inr (op, lg)"
    by blast
  from t2 b have d: "opForRequest (SetUserRequest None :: string request) = Inl NilPointerDereference"
    by blast
  from t1 have e: "opForRequest (OtherValue ''42'') =
       Inr (\<lparr>Entity = '''', Action = ''''\<rparr>, [Infof ''unknown API argument type %#v'' ''42''])"
    by blast
  from a b c d e show ?thesis by blast
qed

text \<open>
  Claim C8. For every WhoAmIRequest value, nil or not and whatever its fields,
  \<open>opForRequest\<close> returns the Login operation and logs nothing. The Login operation is none
  of the operations that the resolver builds for a user or for the global scope: it differs
  from every \<open>UserOp\<close> and \<open>GlobalOp\<close> of a resource action.
\<close>

theorem opForRequest_WhoAmIRequest:
  "opForRequest (WhoAmIRequest r) = Inr (LoginOp, [])
   \<and> (\<forall>a \<in> set resourceActions. \<forall>u. LoginOp \<noteq> UserOp u a \<and> LoginOp \<noteq> GlobalOp a)"
  by (simp add: resourceActions_def LoginOp_def UserOp_def GlobalOp_def ActionRead_def
      ActionVerify_def ActionDischargeFor_def ActionCreateAgent_def ActionReadAdmin_def
      ActionWriteAdmin_def ActionReadGroups_def ActionWriteGroups_def ActionReadSSHKeys_def
      ActionWriteSSHKeys_def)

theorem opForRequest_WhoAmIRequest_witness:
  "opForRequest (WhoAmIRequest None :: unit request) = Inr (LoginOp, [])
   \<and> opForRequest (WhoAmIRequest (Some ()) :: unit request) = Inr (LoginOp, [])
   \<and> ActionRead \<in> set resourceActions
   \<and> LoginOp \<noteq> UserOp ''login'' ActionRead \<and> LoginOp \<noteq> GlobalOp ActionRead"
proof -
  have a: "ActionRead \<in> set resourceActions" by (simp add: resourceActions_def)
  from opForRequest_WhoAmIRequest [of None] a
  have b: "LoginOp \<noteq> UserOp ''login'' ActionRead \<and> LoginOp \<noteq> GlobalOp ActionRead" by blast
  from opForRequest_WhoAmIRequest [of None] opForRequest_WhoAmIRequest [of "Some ()"] a b
  show ?thesis by blast
qed

section \<open>Properties of the identity provider\<close>

subsection \<open>Descriptor and login URL\<close>

text \<open>
  Claim C10. The descriptor of the provider is constant: for every receiver, \<open>Name\<close> is
  "usso_oauth", \<open>Description\<close> is "Ubuntu SSO OAuth" and \<open>Interactive\<close> is false; and
  after \<open>init\<close>, whatever the registry held before, the registry holds under the key
  \<open>Name\<close> the factory that returns \<open>IdentityProvider\<close> and no error.
\<close>

theorem descriptor_constant:
  "Name p = ''usso_oauth'' \<and> Description p = ''Ubuntu SSO OAuth'' \<and> \<not> Interactive p
   \<and> init idps (Name p) = Some (\<lambda>unmarshal. (IdentityProvider, None))"
  by (simp add: Name_def Description_def Interactive_def init_def RegisterIDP_def)

theorem descriptor_constant_witness:
  "Name IdentityProvider = ''usso_oauth'' \<and> Description IdentityProvider = ''Ubuntu SSO OAuth''
   \<and> \<not> Interactive IdentityProvider
   \<and> init (Map.empty :: string \<rightharpoonup> unit factory) (Name IdentityProvider) =
       Some (\<lambda>unmarshal. (IdentityProvider, None))"
  using descriptor_constant [of IdentityProvider "Map.empty :: string \<rightharpoonup> unit factory"]
  by blast

text \<open>
  Claim C9. For every URL context \<open>c\<close> and correlation token \<open>w\<close>, \<open>URL\<close> returns the
  callback URL \<open>c.URL("/oauth")\<close>, with \<open>?waitid=\<close> and \<open>w\<close> appended if and only if \<open>w\<close>
  is not empty, and it returns no error.
\<close>

theorem URL_callback:
  "URL p c w = (if w \<noteq> '''' then c ''/oauth'' @ ''?waitid='' @ w else c ''/oauth'', None)
   \<and> (fst (URL p c w) = c ''/oauth'' @ ''?waitid='' @ w \<longleftrightarrow> w \<noteq> '''')"
  by (simp add: URL_def Let_def)

theorem URL_callback_witness:
  "URL IdentityProvider (\<lambda>path. ''https://id.example'' @ path) ''w1'' =
     (''https://id.example/oauth?waitid=w1'', None)
   \<and> URL IdentityProvider (\<lambda>path. ''https://id.example'' @ path) '''' =
     (''https://id.example/oauth'', None)"
  using URL_callback [of IdentityProvider "\<lambda>path. ''https://id.example'' @ path" "''w1''"]
        URL_callback [of IdentityProvider "\<lambda>path. ''https://id.example'' @ path" "''''"]
  by simp

subsection \<open>Shared facts about the verification\<close>

lemma findAllFrom_Nil_iff: "findAllFrom 0 s = [] \<longleftrightarrow> FindStringSubmatch s = []"
  by (induction s) (auto split: option.splits)

lemma findAllFrom_Cons: "findAllFrom 0 s = k # ks \<Longrightarrow> \<exists>w. FindStringSubmatch s = [w, k]"
  by (induction s) (auto split: option.splits)

lemma outcomes_IO: "outcomes (map IO evs @ xs) = outcomes xs"
  by (induction evs) (simp_all add: outcomes_def)

lemma verify_after_post:
  assumes "url_Parse L requestURL = Inr u0"
      and "http_Post L (ussoURL @ ''/api/v2/requests/validate'') ''application/json''
             (payload L u0 req) = Inr resp"
  shows "verifyOAuthSignature L requestURL req =
           (fst (verifyResponse L (req\<lparr>Form := ParseForm L req\<rparr>) resp),
            Post (ussoURL @ ''/api/v2/requests/validate'') ''application/json'' (payload L u0 req)
              # snd (verifyResponse L (req\<lparr>Form := ParseForm L req\<rparr>) resp) @ [BodyClose])"
  using assms
  by (simp add: verifyOAuthSignature_def json_Marshal_def payload_def Let_def split: prod.splits)

lemma verifyResponse_bad_type:
  "mime_ParseMediaType L (Header_Get (resp_Header resp) ''Content-Type'') = Inl e \<Longrightarrow>
   verifyResponse L req resp =
     (Inl (Newf ''bad content type %q'' [Header_Get (resp_Header resp) ''Content-Type'']), [])"
  by (simp add: verifyResponse_def)

lemma verifyResponse_other_type:
  "mime_ParseMediaType L (Header_Get (resp_Header resp) ''Content-Type'') = Inr (t, ps) \<Longrightarrow>
   t \<noteq> ''application/json'' \<Longrightarrow>
   verifyResponse L req resp = (Inl (Newf ''unexpected response type %q'' [t]), [])"
  by (simp add: verifyResponse_def)

lemma verifyResponse_json:
  "mime_ParseMediaType L (Header_Get (resp_Header resp) ''Content-Type'') =
     Inr (''application/json'', ps) \<Longrightarrow>
   fst (verifyResponse L req resp) =
     (case json_Unmarshal L (fst (resp_Body resp)) of
        Inl err \<Rightarrow> Inl (Mask err)
      | Inr v \<Rightarrow>
          if Error v \<noteq> '''' then Inl (Newf ''cannot validate OAuth credentials: %s'' [Error v])
          else if \<not> IsValid v then Inl (Newf ''invalid OAuth credentials'' [])
          else fst (verifyResponse L req resp))"
  by (simp add: verifyResponse_def Let_def split: sum.splits)

lemma verifyResponse_valid:
  assumes "mime_ParseMediaType L (Header_Get (resp_Header resp) ''Content-Type'') =
             Inr (''application/json'', ps)"
      and "json_Unmarshal L (fst (resp_Body resp)) = Inr v" and "Error v = ''''" and "IsValid v"
  shows "verifyResponse L req resp =
           (let consumerKey = FindStringSubmatch (Header_Get (Header req) ''Authorization'') in
            if length consumerKey \<noteq> 2 then
              (Inl (Newf ''no customer key in authorization'' []), [ReadAll])
            else (Inr (ussoURL @ ''/+id/'' @ consumerKey ! 1), [ReadAll]))"
  using assms by (simp add: verifyResponse_def Let_def)

lemma Handle_failure:
  assumes "fst (verifyOAuthSignature L (RequestURL c) (Params_Request c)) = Inl e"
  shows "outcomes (Handle p L c) = [LoginFailure e]"
  using assms by (auto simp: Handle_def outcomes_IO split: prod.splits) (simp add: outcomes_def)

text \<open>
  The double at work: what its libraries return on the inputs of the examples.
\<close>

lemmas double_simps =
  double_def jsonResponse_def textResponse_def signedRequest_def Header_Get_def payload_def
  validBody_def invalidBody_def rejectedBody_def quoted_def quote_def ussoURL_def

lemmas consumerKey_simps =
  consumerKeyMatches_def consumerKeyParam_def consumerKeyPrefix_def matchHere_def quote_def

lemma double_parse:
  "url_Parse (double a) ''https://id.example/oauth?waitid=w1'' = Inr parsedURL"
  "url_Parse (double a) '':'' = Inl (LibError ''missing protocol scheme'')"
  by (simp_all add: double_def parsedURL_def)

lemma double_post: "http_Post (double a) url ctype body = a"
  by (simp add: double_def)

lemma double_content_type:
  "mime_ParseMediaType (double a) (Header_Get (resp_Header (jsonResponse b)) ''Content-Type'') =
     Inr (''application/json'', Map.empty)"
  "mime_ParseMediaType (double a) (Header_Get (resp_Header (textResponse b)) ''Content-Type'') =
     Inr (''text/plain'', Map.empty)"
  "mime_ParseMediaType (double a) (Header_Get (resp_Header plainResponse) ''Content-Type'') =
     Inl (LibError ''mime: no media type'')"
  by (simp_all add: double_def jsonResponse_def textResponse_def plainResponse_def Header_Get_def)

lemma double_unmarshal:
  "json_Unmarshal (double a) (fst (resp_Body (jsonResponse validBody))) =
     Inr \<lparr>IsValid = True, Error = ''''\<rparr>"
  "json_Unmarshal (double a) (fst (resp_Body (jsonResponse invalidBody))) =
     Inr \<lparr>IsValid = False, Error = ''''\<rparr>"
  "json_Unmarshal (double a) (fst (resp_Body (jsonResponse rejectedBody))) =
     Inr \<lparr>IsValid = False, Error = ''bad nonce''\<rparr>"
  "json_Unmarshal (double a) (fst (resp_Body (jsonResponse ''oops''))) =
     Inl (LibError ''invalid character'')"
  by (simp_all add: double_def jsonResponse_def validBody_def invalidBody_def rejectedBody_def
      quoted_def quote_def)

lemma authorization_signedRequest:
  "Header_Get (Header (signedRequest a)) ''Authorization'' = a"
  by (simp add: signedRequest_def Header_Get_def)

lemma matches_example:
  "consumerKeyMatches (''OAuth realm=API, '' @ consumerKeyParam ''u123'' @ '', oauth_token=t'') =
     [''u123'']"
  "consumerKeyMatches (consumerKeyParam ''a'' @ '', '' @ consumerKeyParam ''b'') = [''a'', ''b'']"
  "consumerKeyMatches ''OAuth oauth_token=t'' = []"
  by (simp_all add: consumerKey_simps)

lemma callback_sel:
  "RequestURL (callback a) = ''https://id.example/oauth?waitid=w1''"
  "Params_Request (callback a) = signedRequest a"
  "FindUserByExternalId (callback a) = userStore"
  by (simp_all add: callback_def)

lemma userStore_example:
  "userStore ''https://login.ubuntu.com/+id/u123'' = Inr ''bob''"
  "userStore ''https://login.ubuntu.com/+id/u999'' = Inl (LibError ''not found'')"
  by (simp_all add: userStore_def)

lemma verify_example:
  "fst (verifyOAuthSignature (double (Inr (jsonResponse validBody)))
     ''https://id.example/oauth?waitid=w1'' (signedRequest (''OAuth '' @ consumerKeyParam ''u123''))) =
     Inr ''https://login.ubuntu.com/+id/u123''"
  "fst (verifyOAuthSignature (double (Inr (jsonResponse validBody)))
     ''https://id.example/oauth?waitid=w1'' (signedRequest (''OAuth '' @ consumerKeyParam ''u999''))) =
     Inr ''https://login.ubuntu.com/+id/u999''"
  "fst (verifyOAuthSignature (double (Inr (jsonResponse invalidBody)))
     ''https://id.example/oauth?waitid=w1'' (signedRequest (''OAuth '' @ consumerKeyParam ''u123''))) =
     Inl (Newf ''invalid OAuth credentials'' [])"
  by (simp_all add: verifyOAuthSignature_def verifyResponse_def json_Marshal_def Let_def
      double_simps consumerKey_simps)

lemmas example_simps = callback_sel verify_example userStore_example sum.case

subsection \<open>Handle\<close>

text \<open>
  Claim C3. Every run of \<open>Handle\<close> has exactly one terminal outcome, and it is the last
  event of the run: the login failure with the error of the verification when the
  verification fails, the login failure with the annotated error of the user store when the
  lookup fails, and the login success with the user found when both succeed.
\<close>

theorem Handle_one_outcome:
  "outcomes (Handle p L c) =
     (case fst (verifyOAuthSignature L (RequestURL c) (Params_Request c)) of
        Inl err \<Rightarrow> [LoginFailure err]
      | Inr ident \<Rightarrow>
          (case FindUserByExternalId c ident of
             Inl err \<Rightarrow> [LoginFailure (Notef err ''cannot get user details for %q'' [ident])]
           | Inr u \<Rightarrow> [LoginSuccess u]))
   \<and> length (outcomes (Handle p L c)) = 1
   \<and> Handle p L c =
       map IO (snd (verifyOAuthSignature L (RequestURL c) (Params_Request c)))
         @ outcomes (Handle p L c)"
  by (auto simp: Handle_def outcomes_IO LoginUser_def split: prod.splits sum.splits)
     (simp_all add: outcomes_def)

text \<open>
  Three runs: a known user, a verified identity that the user store does not know, and a
  signature that the validator calls invalid.
\<close>

theorem Handle_one_outcome_witness:
  "outcomes (Handle IdentityProvider (double (Inr (jsonResponse validBody)))
      (callback (''OAuth '' @ consumerKeyParam ''u123''))) = [LoginSuccess ''bob'']
   \<and> outcomes (Handle IdentityProvider (double (Inr (jsonResponse validBody)))
      (callback (''OAuth '' @ consumerKeyParam ''u999''))) =
       [LoginFailure (Notef (LibError ''not found'') ''cannot get user details for %q''
          [''https://login.ubuntu.com/+id/u999''])]
   \<and> outcomes (Handle IdentityProvider (double (Inr (jsonResponse invalidBody)))
      (callback (''OAuth '' @ consumerKeyParam ''u123''))) =
       [LoginFailure (Newf ''invalid OAuth credentials'' [])]"
proof (intro conjI)
  show "outcomes (Handle IdentityProvider (double (Inr (jsonResponse validBody)))
      (callback (''OAuth '' @ consumerKeyParam ''u123''))) = [LoginSuccess ''bob'']"
    using Handle_one_outcome [of IdentityProvider "double (Inr (jsonResponse validBody))"
        "callback (''OAuth '' @ consumerKeyParam ''u123'')", THEN conjunct1]
    by (simp only: example_simps)
  show "outcomes (Handle IdentityProvider (double (Inr (jsonResponse validBody)))
      (callback (''OAuth '' @ consumerKeyParam ''u999''))) =
       [LoginFailure (Notef (LibError ''not found'') ''cannot get user details for %q''
          [''https://login.ubuntu.com/+id/u999''])]"
    using Handle_one_outcome [of IdentityProvider "double (Inr (jsonResponse validBody))"
        "callback (''OAuth '' @ consumerKeyParam ''u999'')", THEN conjunct1]
    by (simp only: example_simps)
  show "outcomes (Handle IdentityProvider (double (Inr (jsonResponse invalidBody)))
      (callback (''OAuth '' @ consumerKeyParam ''u123''))) =
       [LoginFailure (Newf ''invalid OAuth credentials'' [])]"
    using Handle_one_outcome [of IdentityProvider "double (Inr (jsonResponse invalidBody))"
        "callback (''OAuth '' @ consumerKeyParam ''u123'')", THEN conjunct1]
    by (simp only: example_simps)
qed

subsection \<open>The consumer key\<close>

text \<open>
  Claim C6. When the validator's response is valid (media type \<open>application/json\<close>, a body
  that decodes with an empty error and \<open>is_valid\<close> set) and the Authorization header holds
  exactly one match of the consumer key pattern, with key \<open>k\<close>, \<open>verifyOAuthSignature\<close>
  returns the namespace \<open>ussoURL\<close> followed by \<open>/+id/\<close> and \<open>k\<close>, after one POST, one read
  of the body and its close.
\<close>

theorem verifyOAuthSignature_identity:
  assumes "url_Parse L requestURL = Inr u"
      and "http_Post L (ussoURL @ ''/api/v2/requests/validate'') ''application/json''
             (payload L u req) = Inr resp"
      and "mime_ParseMediaType L (Header_Get (resp_Header resp) ''Content-Type'') =
             Inr (''application/json'', ps)"
      and "json_Unmarshal L (fst (resp_Body resp)) = Inr v" and "Error v = ''''" and "IsValid v"
      and "consumerKeyMatches (Header_Get (Header req) ''Authorization'') = [k]"
    shows "verifyOAuthSignature L requestURL req =
             (Inr (ussoURL @ ''/+id/'' @ k),
              [Post (ussoURL @ ''/api/v2/requests/validate'') ''application/json'' (payload L u req),
               ReadAll, BodyClose])"
proof -
  from assms(7) obtain w
    where w: "FindStringSubmatch (Header_Get (Header req) ''Authorization'') = [w, k]"
    unfolding consumerKeyMatches_def using findAllFrom_Cons by blast
  show ?thesis
    by (simp add: verify_after_post [OF assms(1,2)] verifyResponse_valid [OF assms(3-6)] w)
qed

text \<open>
  The example of the spec: a valid response and a header with the consumer key \<open>u123\<close>.
\<close>

theorem verifyOAuthSignature_identity_witness:
  "fst (verifyOAuthSignature (double (Inr (jsonResponse validBody)))
      ''https://id.example/oauth?waitid=w1''
      (signedRequest (''OAuth realm=API, '' @ consumerKeyParam ''u123'' @ '', oauth_token=t''))) =
     Inr (ussoURL @ ''/+id/'' @ ''u123'')"
proof -
  have m: "consumerKeyMatches (Header_Get (Header
      (signedRequest (''OAuth realm=API, '' @ consumerKeyParam ''u123'' @ '', oauth_token=t'')))
      ''Authorization'') = [''u123'']"
    by (simp only: authorization_signedRequest matches_example)
  have e: "Error \<lparr>IsValid = True, Error = ''''\<rparr> = ''''"
    and i: "IsValid \<lparr>IsValid = True, Error = ''''\<rparr>"
    by simp_all
  from verifyOAuthSignature_identity
    [OF double_parse(1) double_post double_content_type(1) double_unmarshal(1) e i m]
  show ?thesis by (simp only: fst_conv)
qed

text \<open>
  Claim C4, as stated, says that a header with two or more matches of the consumer key
  pattern makes the verification fail. It does not: with a valid response and the two
  keys \<open>a\<close> and \<open>b\<close> in the header, the verification succeeds with the identity of \<open>a\<close>.
\<close>

theorem two_consumer_keys_accepted:
  "consumerKeyMatches (consumerKeyParam ''a'' @ '', '' @ consumerKeyParam ''b'') = [''a'', ''b'']
   \<and> fst (verifyOAuthSignature (double (Inr (jsonResponse validBody)))
        ''https://id.example/oauth?waitid=w1''
        (signedRequest (consumerKeyParam ''a'' @ '', '' @ consumerKeyParam ''b''))) =
       Inr ''https://login.ubuntu.com/+id/a''"
  by (simp add: verifyOAuthSignature_def verifyResponse_def json_Marshal_def Let_def
      double_simps consumerKey_simps)

text \<open>
  Claim C4, amended. After a valid validator response, the verification looks for the
  leftmost match of the consumer key pattern in the Authorization header and requires at
  least one match: with no match it fails with the cause "no customer key in
  authorization"; with one match or more it succeeds with the key of the leftmost match,
  whatever follows it.
\<close>

theorem verifyOAuthSignature_leftmost_key:
  assumes "url_Parse L requestURL = Inr u"
      and "http_Post L (ussoURL @ ''/api/v2/requests/validate'') ''application/json''
             (payload L u req) = Inr resp"
      and "mime_ParseMediaType L (Header_Get (resp_Header resp) ''Content-Type'') =
             Inr (''application/json'', ps)"
      and "json_Unmarshal L (fst (resp_Body resp)) = Inr v" and "Error v = ''''" and "IsValid v"
    shows "(consumerKeyMatches (Header_Get (Header req) ''Authorization'') = [] \<longrightarrow>
              fst (verifyOAuthSignature L requestURL req) =
                Inl (Newf ''no customer key in authorization'' []))
         \<and> (\<forall>k ks. consumerKeyMatches (Header_Get (Header req) ''Authorization'') = k # ks \<longrightarrow>
              fst (verifyOAuthSignature L requestURL req) = Inr (ussoURL @ ''/+id/'' @ k))"
proof (intro conjI allI impI)
  assume "consumerKeyMatches (Header_Get (Header req) ''Authorization'') = []"
  then have "FindStringSubmatch (Header_Get (Header req) ''Authorization'') = []"
    by (simp add: consumerKeyMatches_def findAllFrom_Nil_iff)
  then show "fst (verifyOAuthSignature L requestURL req) =
      Inl (Newf ''no customer key in authorization'' [])"
    by (simp add: verify_after_post [OF assms(1,2)] verifyResponse_valid [OF assms(3-6)])
next
  fix k ks
  assume "consumerKeyMatches (Header_Get (Header req) ''Authorization'') = k # ks"
  then obtain w
    where w: "FindStringSubmatch (Header_Get (Header req) ''Authorization'') = [w, k]"
    unfolding consumerKeyMatches_def using findAllFrom_Cons by blast
  show "fst (verifyOAuthSignature L requestURL req) = Inr (ussoURL @ ''/+id/'' @ k)"
    by (simp add: verify_after_post [OF assms(1,2)] verifyResponse_valid [OF assms(3-6)] w)
qed

theorem verifyOAuthSignature_leftmost_key_witness:
  "fst (verifyOAuthSignature (double (Inr (jsonResponse validBody)))
      ''https://id.example/oauth?waitid=w1''
      (signedRequest (consumerKeyParam ''a'' @ '', '' @ consumerKeyParam ''b''))) =
     Inr (ussoURL @ ''/+id/'' @ ''a'')
   \<and> fst (verifyOAuthSignature (double (Inr (jsonResponse validBody)))
      ''https://id.example/oauth?waitid=w1'' (signedRequest ''OAuth oauth_token=t'')) =
     Inl (Newf ''no customer key in authorization'' [])"
proof -
  have e: "Error \<lparr>IsValid = True, Error = ''''\<rparr> = ''''"
    and i: "IsValid \<lparr>IsValid = True, Error = ''''\<rparr>"
    by simp_all
  note t = verifyOAuthSignature_leftmost_key
    [OF double_parse(1) double_post double_content_type(1) double_unmarshal(1) e i]
  have two: "consumerKeyMatches (Header_Get (Header
      (signedRequest (consumerKeyParam ''a'' @ '', '' @ consumerKeyParam ''b''))) ''Authorization'') =
      ''a'' # [''b'']"
    by (simp only: authorization_signedRequest matches_example)
  have none: "consumerKeyMatches
      (Header_Get (Header (signedRequest ''OAuth oauth_token=t'')) ''Authorization'') = []"
    by (simp only: authorization_signedRequest matches_example)
  from t [THEN conjunct2, rule_format, OF two] t [THEN conjunct1, rule_format, OF none]
  show ?thesis by (rule conjI)
qed

subsection \<open>The validator's response\<close>

text \<open>
  Claim C5. Once the POST has returned a response, \<open>verifyOAuthSignature\<close> returns an
  error whenever the content type of the response cannot be parsed or its media type is
  not \<open>application/json\<close>, and then the body is never read: the only events are the POST
  and the close. It also returns an error whenever the body does not decode, the decoded
  error field is not empty, or \<open>is_valid\<close> is false. In each case \<open>Handle\<close> ends in the
  login failure with that error, and never in a login success.
\<close>

theorem verifyOAuthSignature_rejects_response:
  assumes "url_Parse L requestURL = Inr u"
      and "http_Post L (ussoURL @ ''/api/v2/requests/validate'') ''application/json''
             (payload L u req) = Inr resp"
  shows "(\<forall>e. mime_ParseMediaType L (Header_Get (resp_Header resp) ''Content-Type'') = Inl e \<longrightarrow>
            verifyOAuthSignature L requestURL req =
              (Inl (Newf ''bad content type %q'' [Header_Get (resp_Header resp) ''Content-Type'']),
               [Post (ussoURL @ ''/api/v2/requests/validate'') ''application/json''
                  (payload L u req), BodyClose]))
       \<and> (\<forall>t ps. mime_ParseMediaType L (Header_Get (resp_Header resp) ''Content-Type'') = Inr (t, ps)
              \<and> t \<noteq> ''application/json'' \<longrightarrow>
            verifyOAuthSignature L requestURL req =
              (Inl (Newf ''unexpected response type %q'' [t]),
               [Post (ussoURL @ ''/api/v2/requests/validate'') ''application/json''
                  (payload L u req), BodyClose]))
       \<and> (\<forall>ps e. mime_ParseMediaType L (Header_Get (resp_Header resp) ''Content-Type'') =
                    Inr (''application/json'', ps)
              \<and> json_Unmarshal L (fst (resp_Body resp)) = Inl e \<longrightarrow>
            fst (verifyOAuthSignature L requestURL req) = Inl (Mask e))
       \<and> (\<forall>ps v. mime_ParseMediaType L (Header_Get (resp_Header resp) ''Content-Type'') =
                    Inr (''application/json'', ps)
              \<and> json_Unmarshal L (fst (resp_Body resp)) = Inr v
              \<and> (Error v \<noteq> '''' \<or> \<not> IsValid v) \<longrightarrow>
            fst (verifyOAuthSignature L requestURL req) =
              Inl (if Error v \<noteq> '''' then Newf ''cannot validate OAuth credentials: %s'' [Error v]
                   else Newf ''invalid OAuth credentials'' []))
       \<and> (\<forall>e p. \<forall>c :: 'u Context.
            fst (verifyOAuthSignature L requestURL req) = Inl e
              \<and> RequestURL c = requestURL \<and> Params_Request c = req \<longrightarrow>
            outcomes (Handle p L c) = [LoginFailure e])"
proof -
  note post = verify_after_post [OF assms]
  have a: "\<forall>e. mime_ParseMediaType L (Header_Get (resp_Header resp) ''Content-Type'') = Inl e \<longrightarrow>
            verifyOAuthSignature L requestURL req =
              (Inl (Newf ''bad content type %q'' [Header_Get (resp_Header resp) ''Content-Type'']),
               [Post (ussoURL @ ''/api/v2/requests/validate'') ''application/json''
                  (payload L u req), BodyClose])"
    by (simp add: post verifyResponse_bad_type)
  have b: "\<forall>t ps. mime_ParseMediaType L (Header_Get (resp_Header resp) ''Content-Type'') = Inr (t, ps)
              \<and> t \<noteq> ''application/json'' \<longrightarrow>
            verifyOAuthSignature L requestURL req =
              (Inl (Newf ''unexpected response type %q'' [t]),
               [Post (ussoURL @ ''/api/v2/requests/validate'') ''application/json''
                  (payload L u req), BodyClose])"
    by (simp add: post verifyResponse_other_type)
  have c: "\<forall>ps e. mime_ParseMediaType L (Header_Get (resp_Header resp) ''Content-Type'') =
                    Inr (''application/json'', ps)
              \<and> json_Unmarshal L (fst (resp_Body resp)) = Inl e \<longrightarrow>
            fst (verifyOAuthSignature L requestURL req) = Inl (Mask e)"
    by (simp add: post verifyResponse_json)
  have d: "\<forall>ps v. mime_ParseMediaType L (Header_Get (resp_Header resp) ''Content-Type'') =
                    Inr (''application/json'', ps)
              \<and> json_Unmarshal L (fst (resp_Body resp)) = Inr v
              \<and> (Error v \<noteq> '''' \<or> \<not> IsValid v) \<longrightarrow>
            fst (verifyOAuthSignature L requestURL req) =
              Inl (if Error v \<noteq> '''' then Newf ''cannot validate OAuth credentials: %s'' [Error v]
                   else Newf ''invalid OAuth credentials'' [])"
    by (auto simp: post verifyResponse_json)
  have e: "\<forall>e p. \<forall>c :: 'u Context.
            fst (verifyOAuthSignature L requestURL req) = Inl e
              \<and> RequestURL c = requestURL \<and> Params_Request c = req \<longrightarrow>
            outcomes (Handle p L c) = [LoginFailure e]"
    using Handle_failure by blast
  from a b c d e show ?thesis by blast
qed

text \<open>
  Five responses: the type \<open>text/plain\<close> of the spec's example, no content type at all,
  a body that is not JSON, an error reported by the validator, and \<open>is_valid\<close> false; and
  the run of \<open>Handle\<close> on the first.
\<close>

theorem verifyOAuthSignature_rejects_response_witness:
  "verifyOAuthSignature (double (Inr (textResponse validBody)))
      ''https://id.example/oauth?waitid=w1'' (signedRequest (''OAuth '' @ consumerKeyParam ''u123'')) =
     (Inl (Newf ''unexpected response type %q'' [''text/plain'']),
      [Post (ussoURL @ ''/api/v2/requests/validate'') ''application/json''
         (payload (double (Inr (textResponse validBody))) parsedURL
            (signedRequest (''OAuth '' @ consumerKeyParam ''u123''))), BodyClose])
   \<and> fst (verifyOAuthSignature (double (Inr plainResponse))
      ''https://id.example/oauth?waitid=w1'' (signedRequest (''OAuth '' @ consumerKeyParam ''u123''))) =
     Inl (Newf ''bad content type %q'' [Header_Get (resp_Header plainResponse) ''Content-Type''])
   \<and> fst (verifyOAuthSignature (double (Inr (jsonResponse ''oops'')))
      ''https://id.example/oauth?waitid=w1'' (signedRequest (''OAuth '' @ consumerKeyParam ''u123''))) =
     Inl (Mask (LibError ''invalid character''))
   \<and> fst (verifyOAuthSignature (double (Inr (jsonResponse rejectedBody)))
      ''https://id.example/oauth?waitid=w1'' (signedRequest (''OAuth '' @ consumerKeyParam ''u123''))) =
     Inl (Newf ''cannot validate OAuth credentials: %s'' [''bad nonce''])
   \<and> fst (verifyOAuthSignature (double (Inr (jsonResponse invalidBody)))
      ''https://id.example/oauth?waitid=w1'' (signedRequest (''OAuth '' @ consumerKeyParam ''u123''))) =
     Inl (Newf ''invalid OAuth credentials'' [])
   \<and> outcomes (Handle IdentityProvider (double (Inr (textResponse validBody)))
        (callback (''OAuth '' @ consumerKeyParam ''u123''))) =
     [LoginFailure (Newf ''unexpected response type %q'' [''text/plain''])]"
proof -
  let ?url = "''https://id.example/oauth?waitid=w1''"
  let ?req = "signedRequest (''OAuth '' @ consumerKeyParam ''u123'')"
  note t = verifyOAuthSignature_rejects_response
    [where requestURL = ?url and u = parsedURL and req = ?req, OF double_parse(1) double_post]
  have ne: "''text/plain'' \<noteq> ''application/json''" by simp
  have r1: "verifyOAuthSignature (double (Inr (textResponse validBody))) ?url ?req =
     (Inl (Newf ''unexpected response type %q'' [''text/plain'']),
      [Post (ussoURL @ ''/api/v2/requests/validate'') ''application/json''
         (payload (double (Inr (textResponse validBody))) parsedURL ?req), BodyClose])"
    by (rule t [THEN conjunct2, THEN conjunct1, rule_format, OF conjI [OF double_content_type(2) ne]])
  have r2: "fst (verifyOAuthSignature (double (Inr plainResponse)) ?url ?req) =
     Inl (Newf ''bad content type %q'' [Header_Get (resp_Header plainResponse) ''Content-Type''])"
    using t [THEN conjunct1, rule_format, OF double_content_type(3)] by (simp only: fst_conv)
  have r3: "fst (verifyOAuthSignature (double (Inr (jsonResponse ''oops''))) ?url ?req) =
     Inl (Mask (LibError ''invalid character''))"
    by (rule t [THEN conjunct2, THEN conjunct2, THEN conjunct1, rule_format,
          OF conjI [OF double_content_type(1) double_unmarshal(4)]])
  have bad: "Error \<lparr>IsValid = False, Error = ''bad nonce''\<rparr> \<noteq> ''''
      \<or> \<not> IsValid \<lparr>IsValid = False, Error = ''bad nonce''\<rparr>"
    by simp
  have r4: "fst (verifyOAuthSignature (double (Inr (jsonResponse rejectedBody))) ?url ?req) =
     Inl (Newf ''cannot validate OAuth credentials: %s'' [''bad nonce''])"
    using t [THEN conjunct2, THEN conjunct2, THEN conjunct2, THEN conjunct1, rule_format,
          OF conjI [OF double_content_type(1) conjI [OF double_unmarshal(3) bad]]]
    by simp
  have inv: "Error \<lparr>IsValid = False, Error = ''''\<rparr> \<noteq> ''''
      \<or> \<not> IsValid \<lparr>IsValid = False, Error = ''''\<rparr>"
    by simp
  have r5: "fst (verifyOAuthSignature (double (Inr (jsonResponse invalidBody))) ?url ?req) =
     Inl (Newf ''invalid OAuth credentials'' [])"
    using t [THEN conjunct2, THEN conjunct2, THEN conjunct2, THEN conjunct1, rule_format,
          OF conjI [OF double_content_type(1) conjI [OF double_unmarshal(2) inv]]]
    by simp
  from r1 have f1: "fst (verifyOAuthSignature (double (Inr (textResponse validBody))) ?url ?req) =
      Inl (Newf ''unexpected response type %q'' [''text/plain''])"
    by (simp only: fst_conv)
  have r6: "outcomes (Handle IdentityProvider (double (Inr (textResponse validBody)))
        (callback (''OAuth '' @ consumerKeyParam ''u123''))) =
     [LoginFailure (Newf ''unexpected response type %q'' [''text/plain''])]"
    by (rule t [THEN conjunct2, THEN conjunct2, THEN conjunct2, THEN conjunct2, rule_format,
          OF conjI [OF f1 conjI [OF callback_sel(1) callback_sel(2)]]])
  from r1 r2 r3 r4 r5 r6 show ?thesis by (intro conjI)
qed

subsection \<open>The request to the validator\<close>

text \<open>
  Claim C7, as stated, says that every verification makes exactly one POST. It does not
  when the request URL cannot be parsed: for the URL \<open>:\<close> the verification returns before
  any POST.
\<close>

theorem unparsable_URL_no_POST:
  "filter isPost (snd (verifyOAuthSignature (double (Inr (jsonResponse validBody))) '':''
      (signedRequest (consumerKeyParam ''u123'')))) = []"
  by (simp add: verifyOAuthSignature_def double_def)

text \<open>
  Claim C7, amended. For every callback request whose URL parses, the verification makes
  exactly one POST, to the validation endpoint and of type \<open>application/json\<close>; its payload
  is the JSON object with exactly the keys \<open>http_url\<close>, \<open>http_method\<close>, \<open>authorization\<close> and
  \<open>query_string\<close>, holding the parsed request URL printed with its query string cleared,
  the request method, the Authorization header of the request, and the encoded form of
  the request. When the URL does not parse, the verification fails with the cause "cannot
  parse request URL" and makes no POST.
\<close>

theorem verifyOAuthSignature_posts_once:
  "(\<forall>u. url_Parse L requestURL = Inr u \<longrightarrow>
      filter isPost (snd (verifyOAuthSignature L requestURL req)) =
        [Post (ussoURL @ ''/api/v2/requests/validate'') ''application/json''
           (JObject
             [(''http_url'', JString (URL_String L (u\<lparr>RawQuery := ''''\<rparr>))),
              (''http_method'', JString (Method req)),
              (''authorization'', JString (Header_Get (Header req) ''Authorization'')),
              (''query_string'', JString (Values_Encode L (ParseForm L req)))])])
   \<and> (\<forall>err. url_Parse L requestURL = Inl err \<longrightarrow>
        verifyOAuthSignature L requestURL req =
          (Inl (Notef err ''cannot parse request URL'' []), []))"
  by (auto simp: verifyOAuthSignature_def verifyResponse_def json_Marshal_def Let_def
      split: sum.splits prod.splits if_splits)

text \<open>
  The callback of the examples, whose URL carries the query \<open>waitid=w1\<close>, and the URL \<open>:\<close>.
\<close>

theorem verifyOAuthSignature_posts_once_witness:
  "filter isPost (snd (verifyOAuthSignature (double (Inr (jsonResponse validBody)))
      ''https://id.example/oauth?waitid=w1'' (signedRequest ''OAuth sig''))) =
     [Post ''https://login.ubuntu.com/api/v2/requests/validate'' ''application/json''
        (JObject
          [(''http_url'', JString ''https://id.example/oauth''),
           (''http_method'', JString ''GET''),
           (''authorization'', JString ''OAuth sig''),
           (''query_string'', JString ''waitid=w1'')])]
   \<and> verifyOAuthSignature (double (Inr (jsonResponse validBody))) '':''
        (signedRequest ''OAuth sig'') =
     (Inl (Notef (LibError ''missing protocol scheme'') ''cannot parse request URL'' []), [])"
proof -
  note t = verifyOAuthSignature_posts_once
    [of "double (Inr (jsonResponse validBody))" _ "signedRequest ''OAuth sig''"]
  have a: "filter isPost (snd (verifyOAuthSignature (double (Inr (jsonResponse validBody)))
      ''https://id.example/oauth?waitid=w1'' (signedRequest ''OAuth sig''))) =
     [Post ''https://login.ubuntu.com/api/v2/requests/validate'' ''application/json''
        (JObject
          [(''http_url'', JString ''https://id.example/oauth''),
           (''http_method'', JString ''GET''),
           (''authorization'', JString ''OAuth sig''),
           (''query_string'', JString ''waitid=w1'')])]"
    using t [THEN conjunct1, rule_format, OF double_parse(1)]
    by (simp add: double_def parsedURL_def signedRequest_def Header_Get_def ussoURL_def)
  have b: "verifyOAuthSignature (double (Inr (jsonResponse validBody))) '':''
        (signedRequest ''OAuth sig'') =
     (Inl (Notef (LibError ''missing protocol scheme'') ''cannot parse request URL'' []), [])"
    by (rule t [THEN conjunct2, rule_format, OF double_parse(2)])
  from a b show ?thesis by (rule conjI)
qed

end
